theory Spec2Isabelle
  imports Complex_Main
begin

section \<open>Data model of the gesture detector\<close>

text \<open>
  The detector class \<open>GestureDetector\<close> reads hand frames and keeps a small
  mutable session. JavaScript numbers are modelled as \<^typ>\<open>real\<close>: rounding, NaN and
  infinities are outside the model. The clock \<open>performance.now()\<close> is an input of
  \<open>detect\<close> (the parameter \<open>now\<close>).
\<close>

record Point2D =
  x :: real
  y :: real

text \<open>
  Modelled from the spec: the constants module is not among the sources. The anatomical
  role enumeration \<open>LANDMARKS\<close> indexes the 21 points of a hand frame, in the order the
  spec's data model lists them.
\<close>

datatype LANDMARKS =
    WRIST
  | THUMB_CMC | THUMB_MCP | THUMB_IP | THUMB_TIP
  | INDEX_MCP | INDEX_PIP | INDEX_DIP | INDEX_TIP
  | MIDDLE_MCP | MIDDLE_PIP | MIDDLE_DIP | MIDDLE_TIP
  | RING_MCP | RING_PIP | RING_DIP | RING_TIP
  | PINKY_MCP | PINKY_PIP | PINKY_DIP | PINKY_TIP

text \<open>
  Modelled from the spec: the types module is not among the sources. A hand frame holds
  exactly 21 points, one for each role, so \<open>lm[LANDMARKS.R]\<close> is the application
  \<open>landmarks lm R\<close>. The optional world-space points are never read by the detector and are
  left out. A frame with fewer points makes the source fail on a property read of
  \<open>undefined\<close>; such frames are excluded by this type.
\<close>

record HandLandmarks =
  landmarks :: "LANDMARKS \<Rightarrow> Point2D"

text \<open>Modelled from the spec: the closed enumeration of gesture labels (types module).\<close>

datatype GestureType = none | draw | pinch | fist | palm | swipe

record GestureState =
  current :: GestureType
  previous :: GestureType
  duration :: real
  velocity :: Point2D
  confidence :: real

text \<open>
  Modelled from the spec: the thresholds \<open>GESTURE.*\<close> of the constants module, which is
  not among the sources. They are configuration values, taken as a parameter.
\<close>

record GESTURE =
  SWIPE_VELOCITY :: real
  PINCH_THRESHOLD :: real
  FINGER_CURL_THRESHOLD :: real
  PALM_STABILITY_THRESHOLD :: real

text \<open>The private fields of the class, with their initial values.\<close>

record GestureDetector =
  lastLandmarks :: "HandLandmarks option"
  lastTime :: real
  gestureStartTime :: real
  currentGesture :: GestureType
  previousGesture :: GestureType
  palmHistory :: "Point2D list"
  velocityHistory :: "Point2D list"

definition initial :: GestureDetector where
  "initial = \<lparr>lastLandmarks = None, lastTime = 0, gestureStartTime = 0,
     currentGesture = none, previousGesture = none,
     palmHistory = [], velocityHistory = []\<rparr>"

section \<open>Geometry\<close>

definition distance :: "Point2D \<Rightarrow> Point2D \<Rightarrow> real" where
  "distance p1 p2 =
     (let dx = x p1 - x p2; dy = y p1 - y p2 in sqrt (dx * dx + dy * dy))"

definition getPalmCenter :: "HandLandmarks \<Rightarrow> Point2D" where
  "getPalmCenter lms =
     (let wrist = landmarks lms WRIST;
          indexMcp = landmarks lms INDEX_MCP;
          pinkyMcp = landmarks lms PINKY_MCP
      in \<lparr>x = (x wrist + x indexMcp + x pinkyMcp) / 3,
          y = (y wrist + y indexMcp + y pinkyMcp) / 3\<rparr>)"

definition isFingerExtended ::
  "GESTURE \<Rightarrow> HandLandmarks \<Rightarrow> LANDMARKS \<Rightarrow> LANDMARKS \<Rightarrow> LANDMARKS \<Rightarrow> bool" where
  "isFingerExtended G lms tipIdx pipIdx mcpIdx =
     (let lm = landmarks lms;
          tip = lm tipIdx;
          pip = lm pipIdx;
          tipToPalm = distance tip (lm WRIST);
          pipToPalm = distance pip (lm WRIST)
      in tipToPalm > pipToPalm * FINGER_CURL_THRESHOLD G)"

definition isThumbExtended :: "HandLandmarks \<Rightarrow> bool" where
  "isThumbExtended lms =
     (let lm = landmarks lms;
          thumbTip = lm THUMB_TIP;
          thumbIp = lm THUMB_IP;
          indexMcp = lm INDEX_MCP;
          distFromIndex = distance thumbTip indexMcp;
          thumbLength = distance thumbTip thumbIp
      in distFromIndex > thumbLength * 1.5)"

definition isPointingIndex :: "GESTURE \<Rightarrow> HandLandmarks \<Rightarrow> bool" where
  "isPointingIndex G lms =
     (let indexExtended = isFingerExtended G lms INDEX_TIP INDEX_PIP INDEX_MCP;
          middleCurled = (\<not> isFingerExtended G lms MIDDLE_TIP MIDDLE_PIP MIDDLE_MCP);
          ringCurled = (\<not> isFingerExtended G lms RING_TIP RING_PIP RING_MCP);
          pinkyCurled = (\<not> isFingerExtended G lms PINKY_TIP PINKY_PIP PINKY_MCP)
      in indexExtended \<and> middleCurled \<and> ringCurled \<and> pinkyCurled)"

definition isOpenPalm :: "GESTURE \<Rightarrow> HandLandmarks \<Rightarrow> bool" where
  "isOpenPalm G lms =
     (let indexExtended = isFingerExtended G lms INDEX_TIP INDEX_PIP INDEX_MCP;
          middleExtended = isFingerExtended G lms MIDDLE_TIP MIDDLE_PIP MIDDLE_MCP;
          ringExtended = isFingerExtended G lms RING_TIP RING_PIP RING_MCP;
          pinkyExtended = isFingerExtended G lms PINKY_TIP PINKY_PIP PINKY_MCP;
          thumbExtended = isThumbExtended lms
      in indexExtended \<and> middleExtended \<and> ringExtended \<and> pinkyExtended \<and> thumbExtended)"

definition isFist :: "GESTURE \<Rightarrow> HandLandmarks \<Rightarrow> bool" where
  "isFist G lms =
     (let indexCurled = (\<not> isFingerExtended G lms INDEX_TIP INDEX_PIP INDEX_MCP);
          middleCurled = (\<not> isFingerExtended G lms MIDDLE_TIP MIDDLE_PIP MIDDLE_MCP);
          ringCurled = (\<not> isFingerExtended G lms RING_TIP RING_PIP RING_MCP);
          pinkyCurled = (\<not> isFingerExtended G lms PINKY_TIP PINKY_PIP PINKY_MCP);
          thumbCurled = (\<not> isThumbExtended lms)
      in indexCurled \<and> middleCurled \<and> ringCurled \<and> pinkyCurled \<and> thumbCurled)"

section \<open>Palm stability\<close>

text \<open>The \<open>for\<close> loop of \<open>isPalmStable\<close>: it leaves with false at the first far point.\<close>

fun stableLoop :: "GESTURE \<Rightarrow> Point2D \<Rightarrow> Point2D list \<Rightarrow> bool" where
  "stableLoop G first [] = True"
| "stableLoop G first (point # rest) =
     (let dist = distance point first
      in if dist > PALM_STABILITY_THRESHOLD G then False else stableLoop G first rest)"

text \<open>\<open>slice(-3)\<close>: the last three elements, or the whole array when it is shorter.\<close>

definition slice3 :: "'a list \<Rightarrow> 'a list" where
  "slice3 xs = drop (length xs - 3) xs"

definition isPalmStable :: "GESTURE \<Rightarrow> GestureDetector \<Rightarrow> bool" where
  "isPalmStable G s =
     (if length (palmHistory s) < 3 then False
      else (let recent = slice3 (palmHistory s);
                first = hd recent
            in stableLoop G first recent))"

section \<open>Velocity\<close>

text \<open>\<open>push\<close> followed by \<open>shift\<close> when the array is longer than the capacity.\<close>

definition pushBounded :: "nat \<Rightarrow> 'a list \<Rightarrow> 'a \<Rightarrow> 'a list" where
  "pushBounded cap xs v =
     (let ys = xs @ [v] in if length ys > cap then tl ys else ys)"

definition sumPoints :: "Point2D list \<Rightarrow> Point2D" where
  "sumPoints vs = foldl (\<lambda>acc v. \<lparr>x = x acc + x v, y = y acc + y v\<rparr>) \<lparr>x = 0, y = 0\<rparr> vs"

definition calculateVelocity ::
  "GestureDetector \<Rightarrow> HandLandmarks \<Rightarrow> real \<Rightarrow> Point2D \<times> GestureDetector" where
  "calculateVelocity s lms dt =
     (case lastLandmarks s of
        None \<Rightarrow> (\<lparr>x = 0, y = 0\<rparr>, s)
      | Some lastLms \<Rightarrow>
          if dt = 0 then (\<lparr>x = 0, y = 0\<rparr>, s)
          else
            (let currentPalm = getPalmCenter lms;
                 lastPalm = getPalmCenter lastLms;
                 vel = \<lparr>x = (x currentPalm - x lastPalm) / dt,
                        y = (y currentPalm - y lastPalm) / dt\<rparr>;
                 s1 = s\<lparr>velocityHistory := pushBounded 2 (velocityHistory s) vel\<rparr>;
                 avgVelocity = sumPoints (velocityHistory s1)
             in (\<lparr>x = x avgVelocity / real (length (velocityHistory s1)),
                  y = y avgVelocity / real (length (velocityHistory s1))\<rparr>, s1)))"

section \<open>Classification\<close>

definition detectGestureType ::
  "GESTURE \<Rightarrow> GestureDetector \<Rightarrow> HandLandmarks \<Rightarrow> Point2D \<Rightarrow> GestureType \<times> GestureDetector" where
  "detectGestureType G s lms vel =
     (let lm = landmarks lms;
          speed = sqrt (x vel * x vel + y vel * y vel)
      in if speed > SWIPE_VELOCITY G \<and> \<bar>x vel\<bar> > \<bar>y vel\<bar> * 1.5 then (swipe, s)
         else
           (let pinchDistance = distance (lm THUMB_TIP) (lm INDEX_TIP)
            in if pinchDistance < PINCH_THRESHOLD G then (pinch, s)
               else if isFist G lms then (fist, s)
               else if isOpenPalm G lms then
                 (let s1 = s\<lparr>palmHistory := pushBounded 6 (palmHistory s) (getPalmCenter lms)\<rparr>
                  in if length (palmHistory s1) \<ge> 3 \<and> isPalmStable G s1 then (palm, s1)
                     else if isPointingIndex G lms then (draw, s1)
                     else (none, s1))
               else
                 (let s1 = s\<lparr>palmHistory := []\<rparr>
                  in if isPointingIndex G lms then (draw, s1)
                     else (none, s1))))"

section \<open>The entry point\<close>

definition createState ::
  "GestureDetector \<Rightarrow> GestureType \<Rightarrow> Point2D \<Rightarrow> real \<Rightarrow> GestureState" where
  "createState s gesture vel dur =
     \<lparr>current = gesture, previous = previousGesture s, duration = dur,
      velocity = vel, confidence = 1\<rparr>"

definition detect ::
  "GESTURE \<Rightarrow> GestureDetector \<Rightarrow> real \<Rightarrow> HandLandmarks option
     \<Rightarrow> GestureState \<times> GestureDetector" where
  "detect G s now lmo =
     (let dt = (if lastTime s > 0 then (now - lastTime s) / 1000 else 0);
          s0 = s\<lparr>lastTime := now\<rparr>
      in case lmo of
           None \<Rightarrow> (createState s0 none \<lparr>x = 0, y = 0\<rparr> 0, s0)
         | Some lms \<Rightarrow>
             (let (vel, s1) = calculateVelocity s0 lms dt;
                  (detectedGesture, s2) = detectGestureType G s1 lms vel;
                  s3 = (if detectedGesture \<noteq> currentGesture s2
                        then s2\<lparr>previousGesture := currentGesture s2,
                                currentGesture := detectedGesture,
                                gestureStartTime := now\<rparr>
                        else s2);
                  dur = now - gestureStartTime s3;
                  s4 = s3\<lparr>lastLandmarks := Some lms\<rparr>
              in (createState s4 (currentGesture s4) vel dur, s4)))"

text \<open>A sequence of calls, each with its clock reading; the outputs in call order.\<close>

fun detectAll ::
  "GESTURE \<Rightarrow> GestureDetector \<Rightarrow> (real \<times> HandLandmarks option) list
     \<Rightarrow> GestureState list \<times> GestureDetector" where
  "detectAll G s [] = ([], s)"
| "detectAll G s ((now, lmo) # calls) =
     (let (out, s1) = detect G s now lmo;
          (outs, s2) = detectAll G s1 calls
      in (out # outs, s2))"

section \<open>The stages of one call\<close>

text \<open>
  Names for the intermediate values of \<open>detect\<close> on a frame with a hand: the elapsed
  time, the result of the velocity step and the result of the classification step.
\<close>

definition dtOf :: "GestureDetector \<Rightarrow> real \<Rightarrow> real" where
  "dtOf s now = (if lastTime s > 0 then (now - lastTime s) / 1000 else 0)"

definition velOf :: "GestureDetector \<Rightarrow> real \<Rightarrow> HandLandmarks \<Rightarrow> Point2D \<times> GestureDetector" where
  "velOf s now lms = calculateVelocity (s\<lparr>lastTime := now\<rparr>) lms (dtOf s now)"

definition labelOf ::
  "GESTURE \<Rightarrow> GestureDetector \<Rightarrow> real \<Rightarrow> HandLandmarks \<Rightarrow> GestureType \<times> GestureDetector" where
  "labelOf G s now lms =
     detectGestureType G (snd (velOf s now lms)) lms (fst (velOf s now lms))"

section \<open>Concrete inputs\<close>

text \<open>
  A configuration with a curl ratio above 1 and positive thresholds, and hand frames on
  which the checks are evaluated. In \<open>closedHand\<close> all 21 points coincide, so the thumb
  tip touches the index tip.
\<close>

definition sampleConfig :: GESTURE where
  "sampleConfig = \<lparr>SWIPE_VELOCITY = 800, PINCH_THRESHOLD = 40,
     FINGER_CURL_THRESHOLD = 1.2, PALM_STABILITY_THRESHOLD = 30\<rparr>"

definition closedHand :: HandLandmarks where
  "closedHand = \<lparr>landmarks = (\<lambda>_. \<lparr>x = 0, y = 0\<rparr>)\<rparr>"

text \<open>The session after one call on \<open>closedHand\<close> at clock 1000 from the initial session.\<close>

definition afterFirst :: GestureDetector where
  "afterFirst = \<lparr>lastLandmarks = Some closedHand, lastTime = 1000, gestureStartTime = 1000,
     currentGesture = pinch, previousGesture = none,
     palmHistory = [], velocityHistory = []\<rparr>"

text \<open>A hand pointing with the index finger, and an open hand, both along the vertical axis.\<close>

definition pointingHand :: HandLandmarks where
  "pointingHand = \<lparr>landmarks = (\<lambda>_. \<lparr>x = 0, y = 0\<rparr>)
     (THUMB_IP := \<lparr>x = 0, y = -60\<rparr>, THUMB_TIP := \<lparr>x = 0, y = -100\<rparr>,
      INDEX_PIP := \<lparr>x = 0, y = 100\<rparr>, INDEX_TIP := \<lparr>x = 0, y = 200\<rparr>,
      MIDDLE_PIP := \<lparr>x = 0, y = 100\<rparr>, MIDDLE_TIP := \<lparr>x = 0, y = 50\<rparr>,
      RING_PIP := \<lparr>x = 0, y = 100\<rparr>, RING_TIP := \<lparr>x = 0, y = 50\<rparr>,
      PINKY_PIP := \<lparr>x = 0, y = 100\<rparr>, PINKY_TIP := \<lparr>x = 0, y = 50\<rparr>)\<rparr>"

definition openHand :: HandLandmarks where
  "openHand = \<lparr>landmarks = (\<lambda>_. \<lparr>x = 0, y = 0\<rparr>)
     (THUMB_IP := \<lparr>x = 0, y = -60\<rparr>, THUMB_TIP := \<lparr>x = 0, y = -100\<rparr>,
      INDEX_PIP := \<lparr>x = 0, y = 100\<rparr>, INDEX_TIP := \<lparr>x = 0, y = 200\<rparr>,
      MIDDLE_PIP := \<lparr>x = 0, y = 100\<rparr>, MIDDLE_TIP := \<lparr>x = 0, y = 200\<rparr>,
      RING_PIP := \<lparr>x = 0, y = 100\<rparr>, RING_TIP := \<lparr>x = 0, y = 200\<rparr>,
      PINKY_PIP := \<lparr>x = 0, y = 100\<rparr>, PINKY_TIP := \<lparr>x = 0, y = 200\<rparr>)\<rparr>"

section \<open>Bounds of the histories\<close>

definition bounded :: "GestureDetector \<Rightarrow> bool" where
  "bounded s = (length (palmHistory s) \<le> 6 \<and> length (velocityHistory s) \<le> 2)"

section \<open>The rules in the spec's words\<close>

text \<open>
  The arithmetic mean of the velocity samples held, written with list sums; the source
  computes it with \<open>reduce\<close> (see \<open>sumPoints\<close>).
\<close>

definition spec_mean :: "Point2D list \<Rightarrow> Point2D" where
  "spec_mean vs = \<lparr>x = sum_list (map x vs) / real (length vs),
                    y = sum_list (map y vs) / real (length vs)\<rparr>"

text \<open>
  The spec's classifier: an ordered list of rules, each a condition and its label; the first
  rule whose condition holds gives the label, and \<open>none\<close> is the fallback. The swipe and
  pinch conditions follow the spec's wording (Euclidean norm of the velocity, Euclidean
  distance of the two tips); the palm rule is the finger test together with the stability
  test on the history after the frame's palm centre has been recorded.
\<close>

fun spec_firstMatch :: "(bool \<times> GestureType) list \<Rightarrow> GestureType" where
  "spec_firstMatch [] = none"
| "spec_firstMatch ((fires, label) # rules) = (if fires then label else spec_firstMatch rules)"

definition spec_swipe :: "GESTURE \<Rightarrow> Point2D \<Rightarrow> bool" where
  "spec_swipe G v = (cmod (Complex (x v) (y v)) > SWIPE_VELOCITY G \<and> \<bar>x v\<bar> > 1.5 * \<bar>y v\<bar>)"

definition spec_pinch :: "GESTURE \<Rightarrow> HandLandmarks \<Rightarrow> bool" where
  "spec_pinch G lms =
     (distance (landmarks lms THUMB_TIP) (landmarks lms INDEX_TIP) < PINCH_THRESHOLD G)"

definition spec_palm :: "GESTURE \<Rightarrow> GestureDetector \<Rightarrow> HandLandmarks \<Rightarrow> bool" where
  "spec_palm G s lms =
     (isOpenPalm G lms
      \<and> isPalmStable G (s\<lparr>palmHistory := pushBounded 6 (palmHistory s) (getPalmCenter lms)\<rparr>))"

definition spec_rules ::
  "GESTURE \<Rightarrow> GestureDetector \<Rightarrow> HandLandmarks \<Rightarrow> Point2D \<Rightarrow> (bool \<times> GestureType) list" where
  "spec_rules G s lms v =
     [(spec_swipe G v, swipe), (spec_pinch G lms, pinch), (isFist G lms, fist),
      (spec_palm G s lms, palm), (isPointingIndex G lms, draw)]"

section \<open>Further concrete sessions and frames\<close>

text \<open>
  Sessions holding two palm samples and one velocity sample, the session reached by two
  calls on \<open>openHand\<close> at clocks 1000 and 1033, and a hand whose points all lie at \<open>(3,0)\<close>.
\<close>

definition twoSamples :: GestureDetector where
  "twoSamples = initial\<lparr>palmHistory := [\<lparr>x = 0, y = 0\<rparr>, \<lparr>x = 0, y = 0\<rparr>]\<rparr>"

definition afterTwoOpen :: GestureDetector where
  "afterTwoOpen = \<lparr>lastLandmarks = Some openHand, lastTime = 1033, gestureStartTime = 0,
     currentGesture = none, previousGesture = none,
     palmHistory = [\<lparr>x = 0, y = 0\<rparr>, \<lparr>x = 0, y = 0\<rparr>],
     velocityHistory = [\<lparr>x = 0, y = 0\<rparr>]\<rparr>"

definition movedHand :: HandLandmarks where
  "movedHand = \<lparr>landmarks = (\<lambda>_. \<lparr>x = 3, y = 0\<rparr>)\<rparr>"

definition oneSample :: GestureDetector where
  "oneSample = afterFirst\<lparr>velocityHistory := [\<lparr>x = 2, y = 0\<rparr>]\<rparr>"

section \<open>One call, step by step\<close>

lemma detect_None:
  "detect G s now None =
     (\<lparr>current = none, previous = previousGesture s, duration = 0,
       velocity = \<lparr>x = 0, y = 0\<rparr>, confidence = 1\<rparr>, s\<lparr>lastTime := now\<rparr>)"
  by (simp add: detect_def createState_def)

lemma calculateVelocity_frame:
  "snd (calculateVelocity s lms dt) =
     s\<lparr>velocityHistory := velocityHistory (snd (calculateVelocity s lms dt))\<rparr>"
  by (simp add: calculateVelocity_def Let_def split: option.splits)

lemma detectGestureType_frame:
  "snd (detectGestureType G s lms v) =
     s\<lparr>palmHistory := palmHistory (snd (detectGestureType G s lms v))\<rparr>"
  by (simp add: detectGestureType_def Let_def)

lemma labelOf_fields:
  "currentGesture (snd (labelOf G s now lms)) = currentGesture s"
  "previousGesture (snd (labelOf G s now lms)) = previousGesture s"
  "gestureStartTime (snd (labelOf G s now lms)) = gestureStartTime s"
  "lastTime (snd (labelOf G s now lms)) = now"
  "lastLandmarks (snd (labelOf G s now lms)) = lastLandmarks s"
  unfolding labelOf_def velOf_def
  by (subst detectGestureType_frame, subst calculateVelocity_frame, simp)+

lemma detect_Some:
  "detect G s now (Some lms) =
    (let d = fst (labelOf G s now lms); s2 = snd (labelOf G s now lms);
         s3 = (if d \<noteq> currentGesture s
               then s2\<lparr>previousGesture := currentGesture s,
                       currentGesture := d, gestureStartTime := now\<rparr>
               else s2)
     in (\<lparr>current = currentGesture s3, previous = previousGesture s3,
          duration = now - gestureStartTime s3, velocity = fst (velOf s now lms),
          confidence = 1\<rparr>,
         s3\<lparr>lastLandmarks := Some lms\<rparr>))"
proof -
  have unfolded: "detect G s now (Some lms) =
    (let d = fst (labelOf G s now lms); s2 = snd (labelOf G s now lms);
         s3 = (if d \<noteq> currentGesture s2
               then s2\<lparr>previousGesture := currentGesture s2,
                       currentGesture := d, gestureStartTime := now\<rparr>
               else s2)
     in (\<lparr>current = currentGesture s3, previous = previousGesture s3,
          duration = now - gestureStartTime s3, velocity = fst (velOf s now lms),
          confidence = 1\<rparr>,
         s3\<lparr>lastLandmarks := Some lms\<rparr>))"
    unfolding detect_def labelOf_def velOf_def dtOf_def createState_def
    by (simp add: Let_def case_prod_beta)
  show ?thesis
    unfolding unfolded by (simp add: labelOf_fields Let_def)
qed

lemma detect_Some_fields:
  "current (fst (detect G s now (Some lms))) = currentGesture (snd (detect G s now (Some lms)))"
  "previous (fst (detect G s now (Some lms))) = previousGesture (snd (detect G s now (Some lms)))"
  "duration (fst (detect G s now (Some lms))) =
     now - gestureStartTime (snd (detect G s now (Some lms)))"
  "lastTime (snd (detect G s now (Some lms))) = now"
  "lastLandmarks (snd (detect G s now (Some lms))) = Some lms"
  by (simp_all add: detect_Some Let_def labelOf_fields)

lemma detect_Some_same:
  assumes "currentGesture (snd (detect G s now (Some lms))) = currentGesture s"
  shows "previousGesture (snd (detect G s now (Some lms))) = previousGesture s"
    and "gestureStartTime (snd (detect G s now (Some lms))) = gestureStartTime s"
  using assms by (simp_all add: detect_Some Let_def labelOf_fields split: if_splits)

lemma detect_Some_changed:
  assumes "currentGesture (snd (detect G s now (Some lms))) \<noteq> currentGesture s"
  shows "previousGesture (snd (detect G s now (Some lms))) = currentGesture s"
    and "gestureStartTime (snd (detect G s now (Some lms))) = now"
  using assms by (simp_all add: detect_Some Let_def labelOf_fields split: if_splits)

lemma detect_previous_reported:
  "previous (fst (detect G s now lmo)) = previousGesture (snd (detect G s now lmo))"
  by (cases lmo) (simp_all add: detect_None detect_Some_fields)

lemma first_call_closedHand:
  "detect sampleConfig initial 1000 (Some closedHand) =
     (\<lparr>current = pinch, previous = none, duration = 0,
       velocity = \<lparr>x = 0, y = 0\<rparr>, confidence = 1\<rparr>, afterFirst)"
  by (simp add: detect_def initial_def calculateVelocity_def detectGestureType_def
      closedHand_def sampleConfig_def distance_def createState_def afterFirst_def)

lemma return_call_closedHand:
  "detect sampleConfig (afterFirst\<lparr>lastTime := t1\<rparr>) t2 (Some closedHand) =
     (\<lparr>current = pinch, previous = none, duration = t2 - 1000,
       velocity = \<lparr>x = 0, y = 0\<rparr>, confidence = 1\<rparr>,
      afterFirst\<lparr>lastTime := t2,
        velocityHistory := (if t1 > 0 \<and> t2 \<noteq> t1 then [\<lparr>x = 0, y = 0\<rparr>] else [])\<rparr>)"
  by (simp add: detect_def calculateVelocity_def detectGestureType_def pushBounded_def
      sumPoints_def getPalmCenter_def Let_def
      closedHand_def sampleConfig_def distance_def createState_def afterFirst_def)

section \<open>Frames without a hand\<close>

text \<open>
  C1, as the code has it. When a call is given no landmarks, the state it returns has
  \<open>current = none\<close>, duration 0, and \<open>previous\<close> equal to the \<open>previous\<close> that the call
  before it reported (not to that call's label). No transition is recorded: the stored
  current label, previous label and gesture start time stay as the call before left them.
\<close>

theorem absent_frame_reports_none_without_transition:
  "current (fst (detect G (snd (detect G s t1 lmo)) t2 None)) = none
   \<and> previous (fst (detect G (snd (detect G s t1 lmo)) t2 None))
       = previous (fst (detect G s t1 lmo))
   \<and> duration (fst (detect G (snd (detect G s t1 lmo)) t2 None)) = 0
   \<and> currentGesture (snd (detect G (snd (detect G s t1 lmo)) t2 None))
       = currentGesture (snd (detect G s t1 lmo))
   \<and> previousGesture (snd (detect G (snd (detect G s t1 lmo)) t2 None))
       = previousGesture (snd (detect G s t1 lmo))
   \<and> gestureStartTime (snd (detect G (snd (detect G s t1 lmo)) t2 None))
       = gestureStartTime (snd (detect G s t1 lmo))"
  by (simp add: detect_None detect_previous_reported)

text \<open>
  C1 as stated fails: the first call returns the label \<open>pinch\<close>, and the call without
  landmarks that follows reports \<open>previous = none\<close>, not \<open>pinch\<close>.
\<close>

theorem absent_frame_previous_counterexample:
  "current (fst (detect sampleConfig initial 1000 (Some closedHand))) = pinch
   \<and> previous (fst (detect sampleConfig
         (snd (detect sampleConfig initial 1000 (Some closedHand))) 1033 None)) = none
   \<and> none \<noteq> pinch"
  by (simp add: first_call_closedHand detect_None afterFirst_def)

text \<open>
  C8, as the code has it. Every call sets the last-time record to the clock reading. A call
  with landmarks sets the last-frame record to the new frame; a call without landmarks
  leaves the last-frame record as it was.
\<close>

theorem last_records_after_call:
  "lastTime (snd (detect G s now lmo)) = now
   \<and> lastLandmarks (snd (detect G s now (Some lms))) = Some lms
   \<and> lastLandmarks (snd (detect G s now None)) = lastLandmarks s"
  by (cases lmo) (simp_all add: detect_None detect_Some_fields)

text \<open>
  C8 as stated fails: after a call on \<open>closedHand\<close>, a call without landmarks leaves the
  last-frame record holding \<open>closedHand\<close> instead of making it absent.
\<close>

theorem last_frame_kept_counterexample:
  "lastLandmarks (snd (detect sampleConfig
       (snd (detect sampleConfig initial 1000 (Some closedHand))) 1033 None))
     = Some closedHand
   \<and> Some closedHand \<noteq> (None :: HandLandmarks option)"
  by (simp add: first_call_closedHand detect_None afterFirst_def)

text \<open>
  C10. A call without landmarks changes only the last-time record of the session and
  returns \<open>current = none\<close>, velocity \<open>(0,0)\<close> and duration 0. So when the next frame with a
  hand is classified as the label the session already holds, no transition is recorded:
  \<open>previous\<close> is unchanged and the duration is counted from the start time of before
  the gap.
\<close>

theorem absent_frame_keeps_session:
  "detect G s t1 None =
     (\<lparr>current = none, previous = previousGesture s, duration = 0,
       velocity = \<lparr>x = 0, y = 0\<rparr>, confidence = 1\<rparr>, s\<lparr>lastTime := t1\<rparr>)
   \<and> (current (fst (detect G (snd (detect G s t1 None)) t2 (Some lms))) = currentGesture s
        \<longrightarrow> previous (fst (detect G (snd (detect G s t1 None)) t2 (Some lms)))
              = previousGesture s
          \<and> duration (fst (detect G (snd (detect G s t1 None)) t2 (Some lms)))
              = t2 - gestureStartTime s
          \<and> gestureStartTime (snd (detect G (snd (detect G s t1 None)) t2 (Some lms)))
              = gestureStartTime s)"
proof -
  let ?s1 = "s\<lparr>lastTime := t1\<rparr>"
  have same: "currentGesture (snd (detect G ?s1 t2 (Some lms))) = currentGesture ?s1
      \<Longrightarrow> previousGesture (snd (detect G ?s1 t2 (Some lms))) = previousGesture ?s1
        \<and> gestureStartTime (snd (detect G ?s1 t2 (Some lms))) = gestureStartTime ?s1"
    using detect_Some_same [of G ?s1 t2 lms] by simp
  show ?thesis
    using same by (simp add: detect_None detect_Some_fields)
qed

theorem absent_frame_keeps_session_witness:
  "current (fst (detect sampleConfig (snd (detect sampleConfig afterFirst 2000 None)) 2033
       (Some closedHand))) = currentGesture afterFirst
   \<and> duration (fst (detect sampleConfig (snd (detect sampleConfig afterFirst 2000 None)) 2033
       (Some closedHand))) = 1033
   \<and> gestureStartTime (snd (detect sampleConfig (snd (detect sampleConfig afterFirst 2000 None))
       2033 (Some closedHand))) = 1000"
proof -
  have hyp: "current (fst (detect sampleConfig (snd (detect sampleConfig afterFirst 2000 None))
       2033 (Some closedHand))) = currentGesture afterFirst"
    by (simp add: detect_None return_call_closedHand) (simp add: afterFirst_def)
  show ?thesis
    using hyp absent_frame_keeps_session [of sampleConfig afterFirst 2000 2033 closedHand]
    by (simp add: detect_None afterFirst_def)
qed

section \<open>Evaluating the checks on the concrete frames\<close>

lemma distance_vertical: "x p = x q \<Longrightarrow> distance p q = \<bar>y p - y q\<bar>"
  by (simp add: distance_def)

lemma pointingHand_checks:
  "isFingerExtended sampleConfig pointingHand INDEX_TIP INDEX_PIP INDEX_MCP"
  "\<not> isFingerExtended sampleConfig pointingHand MIDDLE_TIP MIDDLE_PIP MIDDLE_MCP"
  "\<not> isFingerExtended sampleConfig pointingHand RING_TIP RING_PIP RING_MCP"
  "\<not> isFingerExtended sampleConfig pointingHand PINKY_TIP PINKY_PIP PINKY_MCP"
  "isThumbExtended pointingHand"
  "distance (landmarks pointingHand THUMB_TIP) (landmarks pointingHand INDEX_TIP) = 300"
  "getPalmCenter pointingHand = \<lparr>x = 0, y = 0\<rparr>"
  by (simp_all add: isFingerExtended_def isThumbExtended_def getPalmCenter_def
      pointingHand_def sampleConfig_def distance_vertical)

lemma openHand_checks:
  "isFingerExtended sampleConfig openHand INDEX_TIP INDEX_PIP INDEX_MCP"
  "isFingerExtended sampleConfig openHand MIDDLE_TIP MIDDLE_PIP MIDDLE_MCP"
  "isFingerExtended sampleConfig openHand RING_TIP RING_PIP RING_MCP"
  "isFingerExtended sampleConfig openHand PINKY_TIP PINKY_PIP PINKY_MCP"
  "isThumbExtended openHand"
  "distance (landmarks openHand THUMB_TIP) (landmarks openHand INDEX_TIP) = 300"
  "getPalmCenter openHand = \<lparr>x = 0, y = 0\<rparr>"
  by (simp_all add: isFingerExtended_def isThumbExtended_def getPalmCenter_def
      openHand_def sampleConfig_def distance_vertical)

lemma pointingHand_label:
  "detectGestureType sampleConfig s pointingHand \<lparr>x = 0, y = 0\<rparr> = (draw, s\<lparr>palmHistory := []\<rparr>)"
  by (simp add: detectGestureType_def Let_def pointingHand_checks isFist_def isOpenPalm_def
      isPointingIndex_def) (simp add: sampleConfig_def)

lemma call_pointingHand:
  "detect sampleConfig afterFirst 1033 (Some pointingHand) =
     (\<lparr>current = draw, previous = pinch, duration = 0,
       velocity = \<lparr>x = 0, y = 0\<rparr>, confidence = 1\<rparr>,
      afterFirst\<lparr>lastTime := 1033, lastLandmarks := Some pointingHand,
        previousGesture := pinch, currentGesture := draw, gestureStartTime := 1033,
        velocityHistory := [\<lparr>x = 0, y = 0\<rparr>]\<rparr>)"
proof -
  have v: "calculateVelocity (afterFirst\<lparr>lastTime := 1033\<rparr>) pointingHand (33 / 1000)
     = (\<lparr>x = 0, y = 0\<rparr>, afterFirst\<lparr>lastTime := 1033, velocityHistory := [\<lparr>x = 0, y = 0\<rparr>]\<rparr>)"
    by (simp add: calculateVelocity_def afterFirst_def pointingHand_checks pushBounded_def
        sumPoints_def Let_def) (simp add: getPalmCenter_def closedHand_def)
  have t: "lastTime afterFirst = 1000" by (simp add: afterFirst_def)
  show ?thesis
    unfolding detect_def t
    by (simp add: v pointingHand_label createState_def Let_def) (simp add: afterFirst_def)
qed

section \<open>History bounds\<close>

lemma pushBounded_length:
  "length xs \<le> cap \<Longrightarrow> 0 < cap \<Longrightarrow> length (pushBounded cap xs v) \<le> cap"
  by (simp add: pushBounded_def Let_def)

lemma calculateVelocity_histories:
  "palmHistory (snd (calculateVelocity s lms dt)) = palmHistory s"
  "length (velocityHistory s) \<le> 2 \<Longrightarrow> length (velocityHistory (snd (calculateVelocity s lms dt))) \<le> 2"
  by (simp_all add: calculateVelocity_def Let_def pushBounded_length split: option.splits)

lemma detectGestureType_histories:
  "velocityHistory (snd (detectGestureType G s lms v)) = velocityHistory s"
  "length (palmHistory s) \<le> 6 \<Longrightarrow> length (palmHistory (snd (detectGestureType G s lms v))) \<le> 6"
  by (simp_all add: detectGestureType_def Let_def pushBounded_length)

lemma detect_bounded: "bounded s \<Longrightarrow> bounded (snd (detect G s now lmo))"
proof (cases lmo)
  case None
  assume "bounded s"
  then show ?thesis by (simp add: None detect_None bounded_def)
next
  case (Some lms)
  assume b: "bounded s"
  have v: "length (velocityHistory (snd (velOf s now lms))) \<le> 2"
    unfolding velOf_def using b by (simp add: calculateVelocity_histories bounded_def)
  have p: "length (palmHistory (snd (velOf s now lms))) \<le> 6"
    unfolding velOf_def using b by (simp add: calculateVelocity_histories bounded_def)
  have "bounded (snd (labelOf G s now lms))"
    unfolding labelOf_def bounded_def using v p by (simp add: detectGestureType_histories)
  then show ?thesis
    by (simp add: Some detect_Some Let_def bounded_def)
qed

lemma detectAll_bounded: "bounded s \<Longrightarrow> bounded (snd (detectAll G s calls))"
proof (induction calls arbitrary: s)
  case Nil
  then show ?case by simp
next
  case (Cons c calls)
  obtain now lmo where c: "c = (now, lmo)" by (cases c)
  have "bounded (snd (detect G s now lmo))" using Cons.prems by (rule detect_bounded)
  then have "bounded (snd (detectAll G (snd (detect G s now lmo)) calls))" by (rule Cons.IH)
  then show ?case by (simp add: c case_prod_beta)
qed

text \<open>
  C9. After every call of every call sequence, started on a fresh detector, the palm history
  holds at most 6 points and the velocity history at most 2 samples.
\<close>

theorem histories_bounded:
  "length (palmHistory (snd (detectAll G initial calls))) \<le> 6
   \<and> length (velocityHistory (snd (detectAll G initial calls))) \<le> 2"
proof -
  have "bounded initial" by (simp add: bounded_def initial_def)
  then have "bounded (snd (detectAll G initial calls))" by (rule detectAll_bounded)
  then show ?thesis by (simp add: bounded_def)
qed

section \<open>Duration and previous label between frames with a hand\<close>

lemma detectAll_nulls:
  "snd (detectAll G s (map (\<lambda>t. (t, None)) gap)) = s\<lparr>lastTime := last (lastTime s # gap)\<rparr>"
  by (induction gap arbitrary: s) (simp_all add: detect_None case_prod_beta)

lemma detect_after_gap:
  assumes "currentGesture s' = currentGesture s" "previousGesture s' = previousGesture s"
     "gestureStartTime s' = gestureStartTime s"
  shows "current (fst (detect G s' now (Some lms))) = currentGesture s \<Longrightarrow>
      previous (fst (detect G s' now (Some lms))) = previousGesture s \<and>
      duration (fst (detect G s' now (Some lms))) = now - gestureStartTime s"
   and "current (fst (detect G s' now (Some lms))) \<noteq> currentGesture s \<Longrightarrow>
      previous (fst (detect G s' now (Some lms))) = currentGesture s \<and>
      duration (fst (detect G s' now (Some lms))) = 0"
  using assms detect_Some_same [of G s' now lms] detect_Some_changed [of G s' now lms]
  by (simp_all add: detect_Some_fields)

text \<open>
  C3, as the code has it. Take two calls that both carry landmarks, at clock readings
  \<open>t1 \<le> t2\<close>, with any number of calls without landmarks between them. If the second
  reports the same label as the first, its duration is the first duration plus the elapsed
  time (so it does not decrease) and \<open>previous\<close> is the same; if it reports another label,
  its duration is exactly 0 and \<open>previous\<close> is the label the first call reported.
\<close>

theorem duration_between_frames:
  assumes "t1 \<le> t2"
  shows "let r1 = detect G s t1 (Some a);
             sg = snd (detectAll G (snd r1) (map (\<lambda>t. (t, None)) gap));
             r2 = detect G sg t2 (Some b)
         in (current (fst r2) = current (fst r1) \<longrightarrow>
               duration (fst r1) \<le> duration (fst r2)
               \<and> duration (fst r2) = duration (fst r1) + (t2 - t1)
               \<and> previous (fst r2) = previous (fst r1))
          \<and> (current (fst r2) \<noteq> current (fst r1) \<longrightarrow>
               duration (fst r2) = 0 \<and> previous (fst r2) = current (fst r1))"
proof -
  let ?s1 = "snd (detect G s t1 (Some a))"
  let ?sg = "?s1\<lparr>lastTime := last (lastTime ?s1 # gap)\<rparr>"
  have same: "current (fst (detect G ?sg t2 (Some b))) = currentGesture ?s1 \<Longrightarrow>
      previous (fst (detect G ?sg t2 (Some b))) = previousGesture ?s1 \<and>
      duration (fst (detect G ?sg t2 (Some b))) = t2 - gestureStartTime ?s1"
    by (rule detect_after_gap) simp_all
  have changed: "current (fst (detect G ?sg t2 (Some b))) \<noteq> currentGesture ?s1 \<Longrightarrow>
      previous (fst (detect G ?sg t2 (Some b))) = currentGesture ?s1 \<and>
      duration (fst (detect G ?sg t2 (Some b))) = 0"
    by (rule detect_after_gap) simp_all
  show ?thesis
    unfolding Let_def detectAll_nulls
    using same changed assms by (auto simp add: detect_Some_fields)
qed


theorem duration_between_frames_witness:
  "(1000::real) \<le> 1033
   \<and> (let r1 = detect sampleConfig initial 1000 (Some closedHand);
           r2 = detect sampleConfig (snd r1) 1033 (Some closedHand)
       in current (fst r2) = current (fst r1) \<and> duration (fst r1) = 0 \<and> duration (fst r2) = 33
          \<and> previous (fst r2) = previous (fst r1))
   \<and> (let r1 = detect sampleConfig initial 1000 (Some closedHand);
           r2 = detect sampleConfig (snd r1) 1033 (Some pointingHand)
       in current (fst r2) \<noteq> current (fst r1) \<and> duration (fst r2) = 0
          \<and> previous (fst r2) = pinch)"
proof -
  have le: "(1000::real) \<le> 1033" by simp
  have r: "afterFirst\<lparr>lastTime := 1000\<rparr> = afterFirst" by (simp add: afterFirst_def)
  have same: "current (fst (detect sampleConfig afterFirst 1033 (Some closedHand))) = pinch"
    using return_call_closedHand [of 1000 1033] by (simp add: r)
  have changed: "current (fst (detect sampleConfig afterFirst 1033 (Some pointingHand))) \<noteq> pinch"
    by (simp add: call_pointingHand)
  show ?thesis
    using same changed
      duration_between_frames [OF le, of sampleConfig initial closedHand "[]" closedHand]
      duration_between_frames [OF le, of sampleConfig initial closedHand "[]" pointingHand]
    by (simp add: first_call_closedHand Let_def)
qed

text \<open>
  C3 as stated fails across a call without landmarks: with non-decreasing clock readings,
  the reported label changes from \<open>none\<close> to \<open>pinch\<close> at the third call, yet its duration is
  4033, neither 0 nor the delta 33 between the last two calls.
\<close>

theorem duration_after_gap_counterexample:
  "fst (detectAll sampleConfig initial
      [(1000, Some closedHand), (5000, None), (5033, Some closedHand)])
   = [\<lparr>current = pinch, previous = none, duration = 0,
        velocity = \<lparr>x = 0, y = 0\<rparr>, confidence = 1\<rparr>,
      \<lparr>current = none, previous = none, duration = 0,
        velocity = \<lparr>x = 0, y = 0\<rparr>, confidence = 1\<rparr>,
      \<lparr>current = pinch, previous = none, duration = 4033,
        velocity = \<lparr>x = 0, y = 0\<rparr>, confidence = 1\<rparr>]
   \<and> none \<noteq> pinch \<and> (4033 :: real) \<noteq> 0 \<and> (4033 :: real) \<noteq> 5033 - 5000"
  by (simp add: first_call_closedHand detect_None return_call_closedHand)
     (simp add: afterFirst_def)

section \<open>The velocity estimator\<close>

lemma foldl_sumPoints:
  "foldl (\<lambda>acc v. \<lparr>x = x acc + x v, y = y acc + y v\<rparr>) a vs
     = \<lparr>x = x a + sum_list (map x vs), y = y a + sum_list (map y vs)\<rparr>"
  by (induction vs arbitrary: a) (simp_all add: add.assoc)

lemma sumPoints_sum_list:
  "sumPoints vs = \<lparr>x = sum_list (map x vs), y = sum_list (map y vs)\<rparr>"
  by (simp add: sumPoints_def foldl_sumPoints)

lemma pushBounded_2:
  "length h \<le> 2 \<Longrightarrow>
     pushBounded 2 h v = (if length h < 2 then h @ [v] else tl h @ [v])"
  by (cases h) (simp_all add: pushBounded_def Let_def)

lemma calculateVelocity_idle:
  "lastLandmarks s = None \<or> dt = 0 \<Longrightarrow> calculateVelocity s lms dt = (\<lparr>x = 0, y = 0\<rparr>, s)"
  by (auto simp add: calculateVelocity_def split: option.splits)

lemma calculateVelocity_moving:
  assumes "lastLandmarks s = Some prev" "dt \<noteq> 0"
  shows "calculateVelocity s lms dt =
     (spec_mean (pushBounded 2 (velocityHistory s)
         \<lparr>x = (x (getPalmCenter lms) - x (getPalmCenter prev)) / dt,
          y = (y (getPalmCenter lms) - y (getPalmCenter prev)) / dt\<rparr>),
      s\<lparr>velocityHistory := pushBounded 2 (velocityHistory s)
         \<lparr>x = (x (getPalmCenter lms) - x (getPalmCenter prev)) / dt,
          y = (y (getPalmCenter lms) - y (getPalmCenter prev)) / dt\<rparr>\<rparr>)"
  using assms by (simp add: calculateVelocity_def Let_def sumPoints_sum_list spec_mean_def)

lemma spec_mean_one: "spec_mean [v] = v"
  by (simp add: spec_mean_def)

lemma spec_mean_two: "spec_mean [u, v] = \<lparr>x = (x u + x v) / 2, y = (y u + y v) / 2\<rparr>"
  by (simp add: spec_mean_def)

lemma held_nonempty:
  "h \<noteq> [] \<Longrightarrow> length h \<le> 2 \<Longrightarrow> (if length h < 2 then h @ [v] else tl h @ [v]) = [last h, v]"
  by (cases h; cases "tl h") auto

text \<open>
  C5. The velocity estimator returns exactly \<open>(0,0)\<close> and leaves the session untouched when
  there is no last frame or \<open>dt = 0\<close>. Otherwise the raw velocity is the difference of the
  palm centres divided by \<open>dt\<close>; it is appended to the sample history, whose oldest sample
  is dropped when two are already held; the result is the arithmetic mean of the samples
  then held: the raw sample alone when none was held, and the average of the newest held
  sample and the raw one otherwise. The palm centre is the mean of WRIST, INDEX_MCP and
  PINKY_MCP.
\<close>

theorem velocity_estimator:
  "(lastLandmarks s = None \<or> dt = 0 \<longrightarrow>
      calculateVelocity s lms dt = (\<lparr>x = 0, y = 0\<rparr>, s))
   \<and> (lastLandmarks s = Some prev \<and> dt \<noteq> 0 \<and> length (velocityHistory s) \<le> 2 \<longrightarrow>
       (let raw = \<lparr>x = (x (getPalmCenter lms) - x (getPalmCenter prev)) / dt,
                   y = (y (getPalmCenter lms) - y (getPalmCenter prev)) / dt\<rparr>;
            held = (if length (velocityHistory s) < 2 then velocityHistory s @ [raw]
                    else tl (velocityHistory s) @ [raw])
        in calculateVelocity s lms dt = (spec_mean held, s\<lparr>velocityHistory := held\<rparr>)
           \<and> (velocityHistory s = [] \<longrightarrow> spec_mean held = raw)
           \<and> (velocityHistory s \<noteq> [] \<longrightarrow>
                spec_mean held = \<lparr>x = (x (last (velocityHistory s)) + x raw) / 2,
                                   y = (y (last (velocityHistory s)) + y raw) / 2\<rparr>)))
   \<and> getPalmCenter lms =
       \<lparr>x = (x (landmarks lms WRIST) + x (landmarks lms INDEX_MCP)
               + x (landmarks lms PINKY_MCP)) / 3,
        y = (y (landmarks lms WRIST) + y (landmarks lms INDEX_MCP)
               + y (landmarks lms PINKY_MCP)) / 3\<rparr>"
proof (intro conjI impI)
  assume "lastLandmarks s = None \<or> dt = 0"
  then show "calculateVelocity s lms dt = (\<lparr>x = 0, y = 0\<rparr>, s)"
    by (rule calculateVelocity_idle)
next
  assume a: "lastLandmarks s = Some prev \<and> dt \<noteq> 0 \<and> length (velocityHistory s) \<le> 2"
  define raw where "raw = \<lparr>x = (x (getPalmCenter lms) - x (getPalmCenter prev)) / dt,
                   y = (y (getPalmCenter lms) - y (getPalmCenter prev)) / dt\<rparr>"
  define held where "held = (if length (velocityHistory s) < 2 then velocityHistory s @ [raw]
                    else tl (velocityHistory s) @ [raw])"
  have pb: "pushBounded 2 (velocityHistory s) raw = held"
    using a by (simp add: pushBounded_2 held_def)
  have 1: "calculateVelocity s lms dt = (spec_mean held, s\<lparr>velocityHistory := held\<rparr>)"
    using a calculateVelocity_moving [of s prev dt lms] pb by (simp add: raw_def)
  have 2: "velocityHistory s = [] \<longrightarrow> spec_mean held = raw"
    by (simp add: held_def spec_mean_one)
  have 3: "velocityHistory s \<noteq> [] \<longrightarrow>
                spec_mean held = \<lparr>x = (x (last (velocityHistory s)) + x raw) / 2,
                                   y = (y (last (velocityHistory s)) + y raw) / 2\<rparr>"
  proof
    assume ne: "velocityHistory s \<noteq> []"
    have "held = [last (velocityHistory s), raw]"
      unfolding held_def using ne a by (intro held_nonempty) simp_all
    then show "spec_mean held = \<lparr>x = (x (last (velocityHistory s)) + x raw) / 2,
                                   y = (y (last (velocityHistory s)) + y raw) / 2\<rparr>"
      by (simp add: spec_mean_two)
  qed
  show "let raw = \<lparr>x = (x (getPalmCenter lms) - x (getPalmCenter prev)) / dt,
                   y = (y (getPalmCenter lms) - y (getPalmCenter prev)) / dt\<rparr>;
            held = (if length (velocityHistory s) < 2 then velocityHistory s @ [raw]
                    else tl (velocityHistory s) @ [raw])
        in calculateVelocity s lms dt = (spec_mean held, s\<lparr>velocityHistory := held\<rparr>)
           \<and> (velocityHistory s = [] \<longrightarrow> spec_mean held = raw)
           \<and> (velocityHistory s \<noteq> [] \<longrightarrow>
                spec_mean held = \<lparr>x = (x (last (velocityHistory s)) + x raw) / 2,
                                   y = (y (last (velocityHistory s)) + y raw) / 2\<rparr>)"
    unfolding Let_def using 1 2 3 unfolding raw_def held_def by blast
next
  show "getPalmCenter lms =
       \<lparr>x = (x (landmarks lms WRIST) + x (landmarks lms INDEX_MCP)
               + x (landmarks lms PINKY_MCP)) / 3,
        y = (y (landmarks lms WRIST) + y (landmarks lms INDEX_MCP)
               + y (landmarks lms PINKY_MCP)) / 3\<rparr>"
    by (simp add: getPalmCenter_def Let_def)
qed

lemma palm_centers:
  "getPalmCenter movedHand = \<lparr>x = 3, y = 0\<rparr>" "getPalmCenter closedHand = \<lparr>x = 0, y = 0\<rparr>"
  by (simp_all add: getPalmCenter_def movedHand_def closedHand_def)

theorem velocity_estimator_witness:
  "calculateVelocity initial movedHand (1 / 2) = (\<lparr>x = 0, y = 0\<rparr>, initial)
   \<and> calculateVelocity afterFirst movedHand 0 = (\<lparr>x = 0, y = 0\<rparr>, afterFirst)
   \<and> calculateVelocity afterFirst movedHand (1 / 2)
       = (\<lparr>x = 6, y = 0\<rparr>, afterFirst\<lparr>velocityHistory := [\<lparr>x = 6, y = 0\<rparr>]\<rparr>)
   \<and> calculateVelocity oneSample movedHand (1 / 2)
       = (\<lparr>x = 4, y = 0\<rparr>,
          oneSample\<lparr>velocityHistory := [\<lparr>x = 2, y = 0\<rparr>, \<lparr>x = 6, y = 0\<rparr>]\<rparr>)"
proof -
  have none: "lastLandmarks initial = None \<or> (1 / 2 :: real) = 0"
    by (simp add: initial_def)
  have zero: "lastLandmarks afterFirst = None \<or> (0 :: real) = 0"
    by simp
  have first: "lastLandmarks afterFirst = Some closedHand \<and> (1 / 2 :: real) \<noteq> 0
      \<and> length (velocityHistory afterFirst) \<le> 2"
    by (simp add: afterFirst_def)
  have empty: "velocityHistory afterFirst = []"
    by (simp add: afterFirst_def)
  have later: "lastLandmarks oneSample = Some closedHand \<and> (1 / 2 :: real) \<noteq> 0
      \<and> length (velocityHistory oneSample) \<le> 2"
    by (simp add: oneSample_def afterFirst_def)
  have held: "velocityHistory oneSample = [\<lparr>x = 2, y = 0\<rparr>]"
    by (simp add: oneSample_def)
  have a: "calculateVelocity initial movedHand (1 / 2) = (\<lparr>x = 0, y = 0\<rparr>, initial)"
    using none velocity_estimator [of initial "1 / 2" movedHand] by blast
  have b: "calculateVelocity afterFirst movedHand 0 = (\<lparr>x = 0, y = 0\<rparr>, afterFirst)"
    using zero velocity_estimator [of afterFirst 0 movedHand] by blast
  have c: "calculateVelocity afterFirst movedHand (1 / 2)
       = (\<lparr>x = 6, y = 0\<rparr>, afterFirst\<lparr>velocityHistory := [\<lparr>x = 6, y = 0\<rparr>]\<rparr>)"
    using first velocity_estimator [of afterFirst "1 / 2" movedHand closedHand]
    by (simp add: empty palm_centers Let_def)
  have d: "calculateVelocity oneSample movedHand (1 / 2)
       = (\<lparr>x = 4, y = 0\<rparr>,
          oneSample\<lparr>velocityHistory := [\<lparr>x = 2, y = 0\<rparr>, \<lparr>x = 6, y = 0\<rparr>]\<rparr>)"
    using later velocity_estimator [of oneSample "1 / 2" movedHand closedHand]
    by (simp add: held palm_centers Let_def)
  show ?thesis using a b c d by simp
qed


section \<open>The finger tests\<close>

text \<open>
  C6. A finger other than the thumb is extended exactly when its tip is farther from the
  wrist than its PIP joint times the curl ratio; the thumb is extended exactly when its tip
  is farther from INDEX_MCP than 1.5 times its distance to THUMB_IP; distances are Euclidean
  in the plane; curled is the negation of extended, as the fist test uses it.
\<close>

theorem finger_tests:
  "isFingerExtended G lms tipIdx pipIdx mcpIdx =
     (distance (landmarks lms tipIdx) (landmarks lms WRIST)
        > distance (landmarks lms pipIdx) (landmarks lms WRIST) * FINGER_CURL_THRESHOLD G)
   \<and> isThumbExtended lms =
     (distance (landmarks lms THUMB_TIP) (landmarks lms INDEX_MCP)
        > distance (landmarks lms THUMB_TIP) (landmarks lms THUMB_IP) * 1.5)
   \<and> distance p q = cmod (Complex (x p - x q) (y p - y q))
   \<and> isFist G lms =
     (\<not> isFingerExtended G lms INDEX_TIP INDEX_PIP INDEX_MCP
      \<and> \<not> isFingerExtended G lms MIDDLE_TIP MIDDLE_PIP MIDDLE_MCP
      \<and> \<not> isFingerExtended G lms RING_TIP RING_PIP RING_MCP
      \<and> \<not> isFingerExtended G lms PINKY_TIP PINKY_PIP PINKY_MCP
      \<and> \<not> isThumbExtended lms)"
  by (simp add: isFingerExtended_def isThumbExtended_def isFist_def distance_def Let_def
      cmod_def power2_eq_square)


section \<open>The order of the classifier's rules\<close>

lemma speed_cmod: "sqrt (a * a + b * b) = cmod (Complex a b)"
  by (simp add: cmod_def power2_eq_square)

lemma isPalmStable_length: "isPalmStable G s \<Longrightarrow> 3 \<le> length (palmHistory s)"
  by (simp add: isPalmStable_def split: if_splits)

lemma detectGestureType_cases:
  "detectGestureType G s lms v =
     (if spec_swipe G v then (swipe, s)
      else if spec_pinch G lms then (pinch, s)
      else if isFist G lms then (fist, s)
      else if isOpenPalm G lms then
        (if spec_palm G s lms
         then (palm, s\<lparr>palmHistory := pushBounded 6 (palmHistory s) (getPalmCenter lms)\<rparr>)
         else (if isPointingIndex G lms then draw else none,
               s\<lparr>palmHistory := pushBounded 6 (palmHistory s) (getPalmCenter lms)\<rparr>))
      else (if isPointingIndex G lms then draw else none, s\<lparr>palmHistory := []\<rparr>))"
  unfolding detectGestureType_def spec_swipe_def spec_pinch_def spec_palm_def Let_def speed_cmod
  using isPalmStable_length [of G "s\<lparr>palmHistory := pushBounded 6 (palmHistory s) (getPalmCenter lms)\<rparr>"]
  by (auto simp add: mult.commute)

text \<open>
  C2. On every frame and velocity the classifier returns the label of the first rule that
  fires in the order swipe, pinch, fist, palm, draw, and \<open>none\<close> when no rule fires. When
  swipe, pinch or fist fires, the later checks are not reached: the session, and so the palm
  history, is returned as it was. In particular a thumb tip closer to the index tip than the
  pinch threshold gives \<open>pinch\<close> whenever the swipe condition fails.
\<close>

theorem classifier_first_match:
  "fst (detectGestureType G s lms v) = spec_firstMatch (spec_rules G s lms v)
   \<and> (spec_swipe G v \<or> spec_pinch G lms \<or> isFist G lms \<longrightarrow>
        snd (detectGestureType G s lms v) = s)
   \<and> (spec_pinch G lms \<and> \<not> spec_swipe G v \<longrightarrow> detectGestureType G s lms v = (pinch, s))"
  by (simp add: detectGestureType_cases spec_rules_def spec_palm_def)

lemma zero_velocity_no_swipe: "\<not> spec_swipe G \<lparr>x = 0, y = 0\<rparr>"
  by (simp add: spec_swipe_def)

lemma openHand_rules:
  "\<not> spec_pinch sampleConfig openHand" "\<not> isFist sampleConfig openHand"
  "isOpenPalm sampleConfig openHand" "\<not> isPointingIndex sampleConfig openHand"
  by (simp_all add: spec_pinch_def isFist_def isOpenPalm_def isPointingIndex_def openHand_checks)
     (simp add: sampleConfig_def)

lemma pointingHand_rules:
  "\<not> spec_pinch sampleConfig pointingHand" "\<not> isFist sampleConfig pointingHand"
  "\<not> isOpenPalm sampleConfig pointingHand" "isPointingIndex sampleConfig pointingHand"
  by (simp_all add: spec_pinch_def isFist_def isOpenPalm_def isPointingIndex_def
      pointingHand_checks)
     (simp add: sampleConfig_def)

lemma closedHand_rules:
  "spec_pinch sampleConfig closedHand"
  by (simp add: spec_pinch_def closedHand_def distance_def sampleConfig_def)

theorem classifier_first_match_witness:
  "spec_pinch sampleConfig closedHand \<and> \<not> spec_swipe sampleConfig \<lparr>x = 0, y = 0\<rparr>
   \<and> detectGestureType sampleConfig initial closedHand \<lparr>x = 0, y = 0\<rparr> = (pinch, initial)"
  using classifier_first_match [of sampleConfig initial closedHand "\<lparr>x = 0, y = 0\<rparr>"]
  by (simp add: closedHand_rules zero_velocity_no_swipe)

section \<open>The palm rule and its stability test\<close>

lemma slice3_last_three:
  assumes "3 \<le> length h"
  shows "slice3 h = [h ! (length h - 3), h ! (length h - 2), h ! (length h - 1)]"
proof -
  obtain n where n: "length h = n + 3" using assms by (metis add.commute le_Suc_ex)
  have "length (drop n h) = 3" by (simp add: n)
  moreover have "drop n h ! 0 = h ! n" "drop n h ! 1 = h ! (n + 1)" "drop n h ! 2 = h ! (n + 2)"
    by (simp_all add: n)
  ultimately have "drop n h = [h ! n, h ! (n + 1), h ! (n + 2)]"
    by (auto simp add: list_eq_iff_nth_eq less_Suc_eq eval_nat_numeral)
  then show ?thesis by (simp add: slice3_def n)
qed

lemma stableLoop_all:
  "stableLoop G first ps = (\<forall>p \<in> set ps. distance p first \<le> PALM_STABILITY_THRESHOLD G)"
  by (induction ps) (auto simp add: Let_def)

lemma isPalmStable_iff:
  "isPalmStable G s =
     (3 \<le> length (palmHistory s)
      \<and> (\<forall>i < 3. distance (palmHistory s ! (length (palmHistory s) - 3 + i))
                      (palmHistory s ! (length (palmHistory s) - 3))
                   \<le> PALM_STABILITY_THRESHOLD G))"
proof (cases "3 \<le> length (palmHistory s)")
  case False
  then show ?thesis by (simp add: isPalmStable_def)
next
  case True
  obtain n where n: "length (palmHistory s) = n + 3" using True by (metis add.commute le_Suc_ex)
  have all3: "\<And>P. (\<forall>i<3. P i) = (P 0 \<and> P (Suc 0) \<and> P (Suc (Suc 0)))"
    by (auto simp add: less_Suc_eq eval_nat_numeral)
  show ?thesis
    using True
    by (simp add: isPalmStable_def slice3_last_three stableLoop_all Let_def n all3)
qed


lemma pushBounded_6_length:
  "length (pushBounded 6 h c) \<le> length h + 1"
  by (simp add: pushBounded_def Let_def)

lemma palm_needs_two:
  assumes "fst (detectGestureType G s lms v) = palm"
  shows "2 \<le> length (palmHistory s)"
proof -
  have "spec_palm G s lms"
    using assms by (simp add: detectGestureType_cases split: if_splits)
  then have "3 \<le> length (pushBounded 6 (palmHistory s) (getPalmCenter lms))"
    using isPalmStable_length [of G "s\<lparr>palmHistory := pushBounded 6 (palmHistory s) (getPalmCenter lms)\<rparr>"]
    by (simp add: spec_palm_def)
  then show ?thesis
    using pushBounded_6_length [of "palmHistory s" "getPalmCenter lms"] by linarith
qed

lemma palmHistory_grows_by_one:
  "length (palmHistory (snd (detectGestureType G s lms v))) \<le> length (palmHistory s) + 1"
  using pushBounded_6_length [of "palmHistory s" "getPalmCenter lms"]
  by (simp add: detectGestureType_cases)

lemma palm_is_stable:
  assumes "fst (detectGestureType G s lms v) = palm"
  shows "isOpenPalm G lms \<and> isPalmStable G (snd (detectGestureType G s lms v))"
  using assms by (simp add: detectGestureType_cases spec_palm_def split: if_splits)

lemma not_open_clears:
  assumes "\<not> spec_swipe G v" "\<not> spec_pinch G lms" "\<not> isFist G lms" "\<not> isOpenPalm G lms"
  shows "palmHistory (snd (detectGestureType G s lms v)) = []"
  using assms by (simp add: detectGestureType_cases)

text \<open>
  C4. The stability test holds exactly when the palm history has at least 3 samples and each
  of the last 3 lies within the stability radius of the oldest of those 3. The classifier
  returns \<open>palm\<close> only when the open-palm finger test holds and the stability test passes on
  the history it leaves. When the palm check is reached and the finger test fails, the
  history is left empty. From an empty history neither of the next two classifications can
  be \<open>palm\<close>: three samples have to be collected again.
\<close>

theorem palm_requires_stability:
  "isPalmStable G s =
     (3 \<le> length (palmHistory s)
      \<and> (\<forall>i < 3. distance (palmHistory s ! (length (palmHistory s) - 3 + i))
                      (palmHistory s ! (length (palmHistory s) - 3))
                   \<le> PALM_STABILITY_THRESHOLD G))
   \<and> (fst (detectGestureType G s lms v) = palm \<longrightarrow>
        isOpenPalm G lms \<and> isPalmStable G (snd (detectGestureType G s lms v)))
   \<and> (\<not> spec_swipe G v \<and> \<not> spec_pinch G lms \<and> \<not> isFist G lms \<and> \<not> isOpenPalm G lms \<longrightarrow>
        palmHistory (snd (detectGestureType G s lms v)) = [])
   \<and> (palmHistory s = [] \<longrightarrow>
        fst (detectGestureType G s lms v) \<noteq> palm
        \<and> fst (detectGestureType G (snd (detectGestureType G s lms v)) lms2 v2) \<noteq> palm)"
proof (intro conjI impI)
  show "isPalmStable G s =
     (3 \<le> length (palmHistory s)
      \<and> (\<forall>i < 3. distance (palmHistory s ! (length (palmHistory s) - 3 + i))
                      (palmHistory s ! (length (palmHistory s) - 3))
                   \<le> PALM_STABILITY_THRESHOLD G))"
    by (rule isPalmStable_iff)
next
  assume "fst (detectGestureType G s lms v) = palm"
  then show "isOpenPalm G lms" "isPalmStable G (snd (detectGestureType G s lms v))"
    using palm_is_stable by blast+
next
  assume "\<not> spec_swipe G v \<and> \<not> spec_pinch G lms \<and> \<not> isFist G lms \<and> \<not> isOpenPalm G lms"
  then show "palmHistory (snd (detectGestureType G s lms v)) = []"
    by (simp add: not_open_clears)
next
  assume e: "palmHistory s = []"
  show "fst (detectGestureType G s lms v) \<noteq> palm"
    using palm_needs_two [of G s lms v] e by auto
  have "length (palmHistory (snd (detectGestureType G s lms v))) \<le> 1"
    using palmHistory_grows_by_one [of G s lms v] e by simp
  then show "fst (detectGestureType G (snd (detectGestureType G s lms v)) lms2 v2) \<noteq> palm"
    using palm_needs_two [of G "snd (detectGestureType G s lms v)" lms2 v2] by auto
qed

lemma distance_self: "distance p p = 0"
  by (simp add: distance_def)

lemma openHand_third_sample:
  "detectGestureType sampleConfig twoSamples openHand \<lparr>x = 0, y = 0\<rparr> =
     (palm, twoSamples\<lparr>palmHistory := [\<lparr>x = 0, y = 0\<rparr>, \<lparr>x = 0, y = 0\<rparr>, \<lparr>x = 0, y = 0\<rparr>]\<rparr>)"
  by (simp add: detectGestureType_cases zero_velocity_no_swipe openHand_rules spec_palm_def
      openHand_checks twoSamples_def pushBounded_def isPalmStable_def slice3_def distance_self)
     (simp add: sampleConfig_def)

lemma openHand_first_sample:
  "detectGestureType sampleConfig initial openHand \<lparr>x = 0, y = 0\<rparr> =
     (none, initial\<lparr>palmHistory := [\<lparr>x = 0, y = 0\<rparr>]\<rparr>)"
  by (simp add: detectGestureType_cases zero_velocity_no_swipe openHand_rules spec_palm_def
      openHand_checks initial_def pushBounded_def isPalmStable_def)

theorem palm_requires_stability_witness:
  "fst (detectGestureType sampleConfig twoSamples openHand \<lparr>x = 0, y = 0\<rparr>) = palm
   \<and> isPalmStable sampleConfig
        (snd (detectGestureType sampleConfig twoSamples openHand \<lparr>x = 0, y = 0\<rparr>))
   \<and> palmHistory (snd (detectGestureType sampleConfig twoSamples pointingHand \<lparr>x = 0, y = 0\<rparr>))
        = []
   \<and> palmHistory initial = []
   \<and> fst (detectGestureType sampleConfig initial openHand \<lparr>x = 0, y = 0\<rparr>) \<noteq> palm
   \<and> fst (detectGestureType sampleConfig
        (snd (detectGestureType sampleConfig initial openHand \<lparr>x = 0, y = 0\<rparr>))
        openHand \<lparr>x = 0, y = 0\<rparr>) \<noteq> palm"
proof -
  have returned: "fst (detectGestureType sampleConfig twoSamples openHand \<lparr>x = 0, y = 0\<rparr>) = palm"
    by (simp add: openHand_third_sample)
  have reached: "\<not> spec_swipe sampleConfig \<lparr>x = 0, y = 0\<rparr> \<and> \<not> spec_pinch sampleConfig pointingHand
      \<and> \<not> isFist sampleConfig pointingHand \<and> \<not> isOpenPalm sampleConfig pointingHand"
    by (simp add: zero_velocity_no_swipe pointingHand_rules)
  have cleared: "palmHistory initial = []"
    by (simp add: initial_def)
  show ?thesis
    using returned reached cleared
      palm_requires_stability [of sampleConfig twoSamples openHand "\<lparr>x = 0, y = 0\<rparr>"]
      palm_requires_stability [of sampleConfig twoSamples pointingHand "\<lparr>x = 0, y = 0\<rparr>"]
      palm_requires_stability [of sampleConfig initial openHand "\<lparr>x = 0, y = 0\<rparr>" openHand
        "\<lparr>x = 0, y = 0\<rparr>"]
    by simp
qed

section \<open>What the classifier reads of the session\<close>

text \<open>
  C7, as the code has it. The label depends on the session only through the palm history:
  two sessions with the same palm history give the same label on the same landmarks and
  velocity, whatever their other fields; and when the open-palm finger test fails on the
  frame, every two sessions give the same label.
\<close>

theorem classifier_session_dependence:
  "(palmHistory s1 = palmHistory s2 \<longrightarrow>
      fst (detectGestureType G s1 lms v) = fst (detectGestureType G s2 lms v))
   \<and> (\<not> isOpenPalm G lms \<longrightarrow>
      fst (detectGestureType G s1 lms v) = fst (detectGestureType G s2 lms v))"
  by (simp add: detectGestureType_cases spec_palm_def isPalmStable_def)

theorem classifier_session_dependence_witness:
  "palmHistory initial = palmHistory afterFirst
   \<and> fst (detectGestureType sampleConfig initial openHand \<lparr>x = 0, y = 0\<rparr>)
       = fst (detectGestureType sampleConfig afterFirst openHand \<lparr>x = 0, y = 0\<rparr>)
   \<and> \<not> isOpenPalm sampleConfig pointingHand
   \<and> fst (detectGestureType sampleConfig initial pointingHand \<lparr>x = 0, y = 0\<rparr>)
       = fst (detectGestureType sampleConfig twoSamples pointingHand \<lparr>x = 0, y = 0\<rparr>)"
proof -
  have h1: "palmHistory initial = palmHistory afterFirst"
    by (simp add: initial_def afterFirst_def)
  have h2: "\<not> isOpenPalm sampleConfig pointingHand"
    by (simp add: pointingHand_rules)
  show ?thesis
    using h1 h2
      classifier_session_dependence [of initial afterFirst sampleConfig openHand "\<lparr>x = 0, y = 0\<rparr>"]
      classifier_session_dependence [of initial twoSamples sampleConfig pointingHand
        "\<lparr>x = 0, y = 0\<rparr>"]
    by simp
qed


lemma openHand_early_sample:
  assumes "length (palmHistory s) < 2"
  shows "detectGestureType sampleConfig s openHand \<lparr>x = 0, y = 0\<rparr> =
     (none, s\<lparr>palmHistory := palmHistory s @ [\<lparr>x = 0, y = 0\<rparr>]\<rparr>)"
  using assms
  by (simp add: detectGestureType_cases zero_velocity_no_swipe openHand_rules spec_palm_def
      openHand_checks pushBounded_def isPalmStable_def)

lemma openHand_stable_sample:
  assumes "palmHistory s = [\<lparr>x = 0, y = 0\<rparr>, \<lparr>x = 0, y = 0\<rparr>]"
  shows "detectGestureType sampleConfig s openHand \<lparr>x = 0, y = 0\<rparr> =
     (palm, s\<lparr>palmHistory := [\<lparr>x = 0, y = 0\<rparr>, \<lparr>x = 0, y = 0\<rparr>, \<lparr>x = 0, y = 0\<rparr>]\<rparr>)"
  using assms
  by (simp add: detectGestureType_cases zero_velocity_no_swipe openHand_rules spec_palm_def
      openHand_checks pushBounded_def isPalmStable_def slice3_def distance_self)
     (simp add: sampleConfig_def)

lemma initial_fields:
  "lastLandmarks initial = None" "lastTime initial = 0" "gestureStartTime initial = 0"
  "currentGesture initial = none" "previousGesture initial = none"
  "palmHistory initial = []" "velocityHistory initial = []"
  by (simp_all add: initial_def)

lemma openHand_still:
  assumes "lastLandmarks s = Some openHand" "velocityHistory s = []" "dt \<noteq> 0"
  shows "calculateVelocity s openHand dt
     = (\<lparr>x = 0, y = 0\<rparr>, s\<lparr>velocityHistory := [\<lparr>x = 0, y = 0\<rparr>]\<rparr>)"
  using assms
  by (simp add: calculateVelocity_def openHand_checks pushBounded_def sumPoints_def Let_def)

lemma two_open_calls:
  "snd (detectAll sampleConfig initial [(1000, Some openHand), (1033, Some openHand)])
     = afterTwoOpen"
proof -
  let ?s1 = "initial\<lparr>lastTime := 1000, palmHistory := [\<lparr>x = 0, y = 0\<rparr>],
      lastLandmarks := Some openHand\<rparr>"
  have c1: "snd (detect sampleConfig initial 1000 (Some openHand)) = ?s1"
    by (simp add: detect_def calculateVelocity_def openHand_early_sample createState_def
        initial_fields)
  have c2: "snd (detect sampleConfig ?s1 1033 (Some openHand)) = afterTwoOpen"
    unfolding detect_def
    by (simp add: openHand_still openHand_early_sample createState_def Let_def initial_fields)
       (simp add: initial_def afterTwoOpen_def)
  show ?thesis
    by (simp add: case_prod_beta c1 c2)
qed

text \<open>
  C7 as stated fails: on the same open hand and zero velocity, the session reached by two
  calls on that hand classifies \<open>palm\<close>, the fresh session classifies \<open>none\<close>.
\<close>

theorem classifier_not_pure_counterexample:
  "fst (detectGestureType sampleConfig
      (snd (detectAll sampleConfig initial [(1000, Some openHand), (1033, Some openHand)]))
      openHand \<lparr>x = 0, y = 0\<rparr>) = palm
   \<and> fst (detectGestureType sampleConfig initial openHand \<lparr>x = 0, y = 0\<rparr>) = none
   \<and> palm \<noteq> none"
  unfolding two_open_calls
  by (simp add: openHand_stable_sample openHand_early_sample afterTwoOpen_def initial_fields)

end
